theory Spec2Isabelle
  imports Complex_Main
begin

section \<open>Exceptions (mb_oil_finder/exceptions.py)\<close>

text \<open>
  The exception classes of \<^verbatim>\<open>exceptions.py\<close>, together with the two built-in
  classes that an indexing expression of the decoder can raise. A raised exception is
  a pair of its class and its message; a method that can raise returns
  \<open>error + 'a\<close>, with \<open>Inl\<close> for the raised exception.
\<close>

datatype exception_class =
    MBOilFinderError
  | VINDecoderError
  | InvalidVINError
  | UnsupportedVehicleError
  | OilFinderError
  | NoOilRecommendationError
  | EngineDataError
  | KeyError
  | TypeError

type_synonym error = "exception_class \<times> string"

text \<open>The direct base class inside the package (\<open>None\<close> for a class derived
  from a built-in one).\<close>

fun base_class :: "exception_class \<Rightarrow> exception_class option" where
  "base_class MBOilFinderError = None"
| "base_class VINDecoderError = Some MBOilFinderError"
| "base_class InvalidVINError = Some VINDecoderError"
| "base_class UnsupportedVehicleError = Some VINDecoderError"
| "base_class OilFinderError = Some MBOilFinderError"
| "base_class NoOilRecommendationError = Some OilFinderError"
| "base_class EngineDataError = Some MBOilFinderError"
| "base_class KeyError = None"
| "base_class TypeError = None"

text \<open>Sequencing of two computations that may raise.\<close>

definition rbind :: "error + 'a \<Rightarrow> ('a \<Rightarrow> error + 'b) \<Rightarrow> error + 'b" where
  "rbind m f = (case m of Inl e \<Rightarrow> Inl e | Inr x \<Rightarrow> f x)"

section \<open>Data models (mb_oil_finder/models.py)\<close>

text \<open>
  The four dataclasses. \<open>displacement\<close> is a Python float that is stored and never
  computed with; it is kept as a \<open>real\<close> constant. An instance of a dataclass is
  always truthy (the classes define neither \<^verbatim>\<open>__bool__\<close> nor \<^verbatim>\<open>__len__\<close>), so a test
  \<^verbatim>\<open>if not x\<close> on an optional dataclass value is a test for \<^verbatim>\<open>None\<close>.
\<close>

record EngineData =
  code :: string
  type :: string
  family :: string
  description :: string
  displacement :: real
  cylinders :: int
  fuel_type :: string

record OilSpecification =
  mb_approval :: string
  viscosity :: string
  type :: string
  description :: string

record OilRecommendation =
  primary :: OilSpecification
  alternatives :: "OilSpecification list"

record VINData =
  vin :: string
  manufacturer :: string
  model_series :: string
  engine_code :: string
  model_details :: string
  model_year :: string
  plant_code :: string
  serial_number :: string
  engine :: "EngineData option"

section \<open>VIN decoder (mb_oil_finder/vin_decoder.py)\<close>

text \<open>
  The argument of \<^verbatim>\<open>validate_vin\<close> and \<^verbatim>\<open>decode_vin\<close> is annotated \<^verbatim>\<open>str\<close>, but
  the first check of \<^verbatim>\<open>validate_vin\<close> also rejects a value that is not a string.
  \<open>NotStr\<close> stands for any such value; \<open>Str s\<close> is the string \<open>s\<close>, a list of
  characters. (The names \<open>vin\<close> and \<open>engine_code\<close> are fields of \<open>VINData\<close>, so the
  string argument is called \<open>s\<close> and an engine code \<open>ec\<close> below.)
\<close>

datatype py_value = NotStr | Str string

definition MB_MANUFACTURER_CODES :: "string set" where
  "MB_MANUFACTURER_CODES = {''WDD'', ''WDB'', ''WDC'', ''WMX'', ''4JG''}"

text \<open>The dictionary \<^verbatim>\<open>VIN_STRUCTURE\<close>, in its insertion order, which is the
  order \<^verbatim>\<open>.items()\<close> iterates in.\<close>

definition VIN_STRUCTURE :: "(string \<times> nat \<times> nat) list" where
  "VIN_STRUCTURE =
    [(''manufacturer'', 0, 3),
     (''model_series'', 3, 6),
     (''engine_code'', 6, 8),
     (''model_details'', 8, 9),
     (''model_year'', 9, 10),
     (''plant_code'', 10, 11),
     (''serial_number'', 11, 17)]"

definition ENGINE_CODES :: "string \<rightharpoonup> EngineData" where
  "ENGINE_CODES =
    [''42'' \<mapsto> \<lparr>code = ''42'', type = ''OM651'', family = ''Diesel'',
                description = ''2.1L 4-cylinder diesel engine'',
                displacement = 2.1, cylinders = 4, fuel_type = ''Diesel''\<rparr>,
     ''64'' \<mapsto> \<lparr>code = ''64'', type = ''M276'', family = ''Gasoline'',
                description = ''3.5L V6 gasoline engine'',
                displacement = 3.5, cylinders = 6, fuel_type = ''Gasoline''\<rparr>]"

text \<open>Python's \<^verbatim>\<open>s[start:stop]\<close> for non-negative bounds: both bounds are clamped
  to the length of \<open>s\<close>, and the slice is empty when \<open>stop \<le> start\<close>.\<close>

definition slice :: "'a list \<Rightarrow> nat \<Rightarrow> nat \<Rightarrow> 'a list" where
  "slice s start stop = take (stop - start) (drop start s)"

text \<open>Python's \<^verbatim>\<open>d[k]\<close> on a dictionary: \<^verbatim>\<open>KeyError\<close> when the key is missing.\<close>

definition getitem :: "(string \<rightharpoonup> 'v) \<Rightarrow> string \<Rightarrow> error + 'v" where
  "getitem d k = (case d k of None \<Rightarrow> Inl (KeyError, k) | Some v \<Rightarrow> Inr v)"

definition validate_vin :: "py_value \<Rightarrow> error + bool" where
  "validate_vin v =
    (case v of
       NotStr \<Rightarrow> Inl (InvalidVINError, ''VIN must be a non-empty string'')
     | Str s \<Rightarrow>
         if s = [] then Inl (InvalidVINError, ''VIN must be a non-empty string'')
         else if length s \<noteq> 17 then Inl (InvalidVINError, ''VIN must be 17 characters long'')
         else if list_ex (\<lambda>c. c \<in> set ''IOQ'') s
           then Inl (InvalidVINError,
                  ''VIN contains invalid characters: I, O, or Q are not allowed'')
         else (let manufacturer_code = slice s 0 3 in
           if manufacturer_code \<notin> MB_MANUFACTURER_CODES
           then Inl (UnsupportedVehicleError,
                  ''Not a recognized Mercedes-Benz VIN: '' @ manufacturer_code)
           else Inr True))"

text \<open>\<^verbatim>\<open>_get_engine_data\<close>: \<^verbatim>\<open>self.ENGINE_CODES.get(engine_code)\<close>. The method has
  no \<^verbatim>\<open>raise\<close>; a missing code gives \<^verbatim>\<open>None\<close>.\<close>

definition get_engine_data :: "string \<Rightarrow> error + EngineData option" where
  "get_engine_data ec = Inr (ENGINE_CODES ec)"

text \<open>The loop of \<^verbatim>\<open>decode_vin\<close> that fills the dictionary \<^verbatim>\<open>components\<close>.\<close>

definition extract_components :: "string \<Rightarrow> (string \<rightharpoonup> string)" where
  "extract_components s =
    fold (\<lambda>(name, start, stop) components. components(name \<mapsto> slice s start stop))
      VIN_STRUCTURE Map.empty"

text \<open>\<^verbatim>\<open>decode_vin\<close>. A value that is not a string never passes \<^verbatim>\<open>validate_vin\<close>,
  so the branch for it is never reached; it carries the \<^verbatim>\<open>TypeError\<close> of subscripting a
  value that has no slices. The arguments of \<^verbatim>\<open>VINData(...)\<close> are evaluated in the order
  they are written, after the engine lookup.\<close>

definition decode_vin :: "py_value \<Rightarrow> error + VINData" where
  "decode_vin v =
    rbind (validate_vin v) (\<lambda>_.
      case v of
        NotStr \<Rightarrow> Inl (TypeError, ''object is not subscriptable'')
      | Str s \<Rightarrow>
          (let components = extract_components s in
           rbind (getitem components ''engine_code'') (\<lambda>ec.
           rbind (get_engine_data ec) (\<lambda>engine_data.
           rbind (getitem components ''manufacturer'') (\<lambda>c_manufacturer.
           rbind (getitem components ''model_series'') (\<lambda>c_model_series.
           rbind (getitem components ''engine_code'') (\<lambda>c_engine_code.
           rbind (getitem components ''model_details'') (\<lambda>c_model_details.
           rbind (getitem components ''model_year'') (\<lambda>c_model_year.
           rbind (getitem components ''plant_code'') (\<lambda>c_plant_code.
           rbind (getitem components ''serial_number'') (\<lambda>c_serial_number.
             Inr \<lparr>vin = s,
                  manufacturer = c_manufacturer,
                  model_series = c_model_series,
                  engine_code = c_engine_code,
                  model_details = c_model_details,
                  model_year = c_model_year,
                  plant_code = c_plant_code,
                  serial_number = c_serial_number,
                  engine = engine_data\<rparr>)))))))))))"

section \<open>Oil finder (mb_oil_finder/oil_finder.py)\<close>

text \<open>
  An entry of \<^verbatim>\<open>ENGINE_OIL_MAPPING\<close> is a dictionary with the two keys
  \<^verbatim>\<open>"primary"\<close> and \<^verbatim>\<open>"alternatives"\<close>; it is never empty, hence truthy.
\<close>

record OilMapping =
  primary :: string
  alternatives :: "string list"

text \<open>
  \<^verbatim>\<open>find_oil_by_engine\<close> reads both tables through \<^verbatim>\<open>self\<close>. The tables are open
  for extension (``Add more ... as needed''), and two branches of the method are
  reached only when a policy names an approval code that the specification table
  lacks, which the tables as shipped never do. The finder is therefore a record of
  its two tables; \<open>OilFinder_init\<close> is the instance \<^verbatim>\<open>OilFinder()\<close> creates.
\<close>

record OilFinder =
  OIL_SPECIFICATIONS :: "string \<rightharpoonup> OilSpecification"
  ENGINE_OIL_MAPPING :: "string \<rightharpoonup> OilMapping"

definition OilFinder_init :: OilFinder where
  "OilFinder_init =
    \<lparr>OIL_SPECIFICATIONS =
       [''229.1'' \<mapsto> \<lparr>mb_approval = ''229.1'', viscosity = ''10W-40'',
           type = ''Semi-synthetic'',
           description = ''Basic specification for gasoline and diesel engines''\<rparr>,
        ''229.3'' \<mapsto> \<lparr>mb_approval = ''229.3'', viscosity = ''5W-40'',
           type = ''Synthetic'',
           description = ''High-performance specification for gasoline and diesel engines''\<rparr>,
        ''229.5'' \<mapsto> \<lparr>mb_approval = ''229.5'', viscosity = ''5W-30'',
           type = ''Synthetic'',
           description = ''Advanced specification for extended drain intervals''\<rparr>,
        ''229.51'' \<mapsto> \<lparr>mb_approval = ''229.51'', viscosity = ''5W-30'',
           type = ''Synthetic'',
           description = ''Low SAPS oil for diesel engines with particulate filters''\<rparr>],
     ENGINE_OIL_MAPPING =
       [''OM651'' \<mapsto> \<lparr>primary = ''229.51'', alternatives = [''229.5'', ''229.3'']\<rparr>,
        ''M276'' \<mapsto> \<lparr>primary = ''229.5'', alternatives = [''229.3'']\<rparr>]\<rparr>"

text \<open>The loop over \<^verbatim>\<open>mapping["alternatives"]\<close>, with the list built so far as
  accumulator.\<close>

fun collect_alternatives ::
  "(string \<rightharpoonup> OilSpecification) \<Rightarrow> string list \<Rightarrow> OilSpecification list \<Rightarrow> OilSpecification list"
where
  "collect_alternatives specs [] alternative_specs = alternative_specs"
| "collect_alternatives specs (alt_code # rest) alternative_specs =
    (case specs alt_code of
       None \<Rightarrow> collect_alternatives specs rest alternative_specs
     | Some alt_spec \<Rightarrow> collect_alternatives specs rest (alternative_specs @ [alt_spec]))"

definition find_oil_by_engine :: "OilFinder \<Rightarrow> EngineData option \<Rightarrow> error + OilRecommendation" where
  "find_oil_by_engine self engine_data =
    (case engine_data of
       None \<Rightarrow> Inl (NoOilRecommendationError, ''Invalid engine data'')
     | Some ed \<Rightarrow>
         if EngineData.type ed = [] then Inl (NoOilRecommendationError, ''Invalid engine data'')
         else
           (case ENGINE_OIL_MAPPING self (EngineData.type ed) of
              None \<Rightarrow> Inl (NoOilRecommendationError,
                        ''No oil recommendation for engine type: '' @ EngineData.type ed)
            | Some mapping \<Rightarrow>
                (case OIL_SPECIFICATIONS self (OilMapping.primary mapping) of
                   None \<Rightarrow> Inl (NoOilRecommendationError,
                             ''Primary oil specification not found: '' @ OilMapping.primary mapping)
                 | Some primary_spec \<Rightarrow>
                     Inr \<lparr>OilRecommendation.primary = primary_spec,
                          OilRecommendation.alternatives =
                            collect_alternatives (OIL_SPECIFICATIONS self)
                              (OilMapping.alternatives mapping) []\<rparr>)))"


section \<open>Test fixtures\<close>

text \<open>An engine record of a given type; the other fields are arbitrary.\<close>

definition engine_of_type :: "string \<Rightarrow> EngineData" where
  "engine_of_type t =
    \<lparr>code = ''00'', type = t, family = ''Gasoline'', description = ''test engine'',
     displacement = 2.0, cylinders = 4, fuel_type = ''Gasoline''\<rparr>"

text \<open>
  A finder whose policy table has two more entries than the shipped one: \<open>M999\<close>,
  whose primary approval code has no specification, and \<open>M274\<close>, two of whose
  alternatives have none.
\<close>

definition OilFinder_dangling :: OilFinder where
  "OilFinder_dangling =
    OilFinder_init\<lparr>ENGINE_OIL_MAPPING :=
      (ENGINE_OIL_MAPPING OilFinder_init)
        (''M999'' \<mapsto> \<lparr>primary = ''229.99'', alternatives = [''229.5'']\<rparr>,
         ''M274'' \<mapsto> \<lparr>primary = ''229.5'',
                      alternatives = [''229.52'', ''229.3'', ''229.71'', ''229.1'']\<rparr>)\<rparr>"

section \<open>Basic facts\<close>

lemma rbind_Inr [simp]: "rbind (Inr x) f = f x"
  by (simp add: rbind_def)

lemma rbind_Inl [simp]: "rbind (Inl e) f = Inl e"
  by (simp add: rbind_def)

subsection \<open>The decoder\<close>

lemma extract_components_eq:
  "extract_components s =
     [''manufacturer'' \<mapsto> slice s 0 3, ''model_series'' \<mapsto> slice s 3 6,
      ''engine_code'' \<mapsto> slice s 6 8, ''model_details'' \<mapsto> slice s 8 9,
      ''model_year'' \<mapsto> slice s 9 10, ''plant_code'' \<mapsto> slice s 10 11,
      ''serial_number'' \<mapsto> slice s 11 17]"
  by (simp add: extract_components_def VIN_STRUCTURE_def)

text \<open>No lookup in \<open>components\<close> raises \<open>KeyError\<close>.\<close>

lemma getitem_components:
  "getitem (extract_components s) ''manufacturer'' = Inr (slice s 0 3)"
  "getitem (extract_components s) ''model_series'' = Inr (slice s 3 6)"
  "getitem (extract_components s) ''engine_code'' = Inr (slice s 6 8)"
  "getitem (extract_components s) ''model_details'' = Inr (slice s 8 9)"
  "getitem (extract_components s) ''model_year'' = Inr (slice s 9 10)"
  "getitem (extract_components s) ''plant_code'' = Inr (slice s 10 11)"
  "getitem (extract_components s) ''serial_number'' = Inr (slice s 11 17)"
  by (simp_all add: extract_components_eq getitem_def)

lemma decode_vin_valid:
  assumes "validate_vin (Str s) = Inr b"
  shows "decode_vin (Str s) =
    Inr \<lparr>vin = s, manufacturer = slice s 0 3, model_series = slice s 3 6,
         engine_code = slice s 6 8, model_details = slice s 8 9,
         model_year = slice s 9 10, plant_code = slice s 10 11,
         serial_number = slice s 11 17, engine = ENGINE_CODES (slice s 6 8)\<rparr>"
  using assms by (simp add: decode_vin_def getitem_components get_engine_data_def)

lemma decode_vin_invalid: "validate_vin v = Inl e \<Longrightarrow> decode_vin v = Inl e"
  by (simp add: decode_vin_def)

lemma validate_vin_Inr_iff:
  "validate_vin v = Inr b \<longleftrightarrow>
     (\<exists>s. v = Str s \<and> length s = 17 \<and> \<not> list_ex (\<lambda>c. c \<in> set ''IOQ'') s
          \<and> slice s 0 3 \<in> MB_MANUFACTURER_CODES \<and> b)"
  by (cases v) (auto simp: validate_vin_def Let_def)

lemma slices_concat:
  assumes "length s = 17"
  shows "slice s 0 3 @ slice s 3 6 @ slice s 6 8 @ slice s 8 9 @ slice s 9 10
           @ slice s 10 11 @ slice s 11 17 = s"
proof -
  have "take 3 s @ take 3 (drop 3 s) @ take 2 (drop 6 s) @ take 1 (drop 8 s)
         @ take 1 (drop 9 s) @ take 1 (drop 10 s) @ take 6 (drop 11 s) = take 17 s"
    by (simp add: take_add [symmetric] flip: append_assoc)
  then show ?thesis using assms by (simp add: slice_def)
qed

subsection \<open>The finder\<close>

text \<open>The loop appends, in order, the specification of every code that has one.\<close>

lemma collect_alternatives_eq:
  "collect_alternatives specs codes acc =
     acc @ map (the \<circ> specs) (filter (\<lambda>c. specs c \<noteq> None) codes)"
  by (induction codes arbitrary: acc) (auto split: option.splits)

lemma find_oil_by_engine_Some:
  "find_oil_by_engine self (Some ed) =
    (if EngineData.type ed = [] then Inl (NoOilRecommendationError, ''Invalid engine data'')
     else case ENGINE_OIL_MAPPING self (EngineData.type ed) of
        None \<Rightarrow> Inl (NoOilRecommendationError,
                  ''No oil recommendation for engine type: '' @ EngineData.type ed)
      | Some mapping \<Rightarrow>
          (case OIL_SPECIFICATIONS self (OilMapping.primary mapping) of
             None \<Rightarrow> Inl (NoOilRecommendationError,
                       ''Primary oil specification not found: '' @ OilMapping.primary mapping)
           | Some primary_spec \<Rightarrow>
               Inr \<lparr>OilRecommendation.primary = primary_spec,
                    OilRecommendation.alternatives =
                      map (the \<circ> OIL_SPECIFICATIONS self)
                        (filter (\<lambda>c. OIL_SPECIFICATIONS self c \<noteq> None)
                           (OilMapping.alternatives mapping))\<rparr>))"
  by (simp add: find_oil_by_engine_def collect_alternatives_eq split: option.splits)

lemma dangling_tables:
  "ENGINE_OIL_MAPPING OilFinder_dangling ''M999''
     = Some \<lparr>primary = ''229.99'', alternatives = [''229.5'']\<rparr>"
  "ENGINE_OIL_MAPPING OilFinder_dangling ''UNKNOWN'' = None"
  "OIL_SPECIFICATIONS OilFinder_dangling ''229.99'' = None"
  by (simp_all add: OilFinder_dangling_def OilFinder_init_def)

lemma dangling_M274:
  "ENGINE_OIL_MAPPING OilFinder_dangling ''M274''
     = Some \<lparr>primary = ''229.5'',
             alternatives = [''229.52'', ''229.3'', ''229.71'', ''229.1'']\<rparr>"
  by (simp add: OilFinder_dangling_def OilFinder_init_def)

lemma dangling_specs: "OIL_SPECIFICATIONS OilFinder_dangling = OIL_SPECIFICATIONS OilFinder_init"
  by (simp add: OilFinder_dangling_def)

lemma init_specs:
  "OIL_SPECIFICATIONS OilFinder_init ''229.1'' =
     Some \<lparr>mb_approval = ''229.1'', viscosity = ''10W-40'', type = ''Semi-synthetic'',
           description = ''Basic specification for gasoline and diesel engines''\<rparr>"
  "OIL_SPECIFICATIONS OilFinder_init ''229.3'' =
     Some \<lparr>mb_approval = ''229.3'', viscosity = ''5W-40'', type = ''Synthetic'',
           description = ''High-performance specification for gasoline and diesel engines''\<rparr>"
  "OIL_SPECIFICATIONS OilFinder_init ''229.5'' =
     Some \<lparr>mb_approval = ''229.5'', viscosity = ''5W-30'', type = ''Synthetic'',
           description = ''Advanced specification for extended drain intervals''\<rparr>"
  "OIL_SPECIFICATIONS OilFinder_init ''229.51'' =
     Some \<lparr>mb_approval = ''229.51'', viscosity = ''5W-30'', type = ''Synthetic'',
           description = ''Low SAPS oil for diesel engines with particulate filters''\<rparr>"
  "OIL_SPECIFICATIONS OilFinder_init ''229.52'' = None"
  "OIL_SPECIFICATIONS OilFinder_init ''229.71'' = None"
  by (simp_all add: OilFinder_init_def)

lemma init_mapping:
  "ENGINE_OIL_MAPPING OilFinder_init t =
     (if t = ''M276'' then Some \<lparr>primary = ''229.5'', alternatives = [''229.3'']\<rparr>
      else if t = ''OM651''
        then Some \<lparr>primary = ''229.51'', alternatives = [''229.5'', ''229.3'']\<rparr>
      else None)"
  by (simp add: OilFinder_init_def)

section \<open>The claims\<close>

subsection \<open>C1: a policy whose primary approval code has no specification\<close>

text \<open>
  C1, as the specification states it: when the engine type has a policy but the
  policy's primary approval code is absent from the specification table,
  \<^verbatim>\<open>find_oil_by_engine\<close> fails with an error of a kind of its own, distinct from the
  kind raised when the engine type has no policy. The code raises
  \<open>NoOilRecommendationError\<close> in both situations: on the finder \<open>OilFinder_dangling\<close>
  the engine type \<open>M999\<close> has a policy with an unresolvable primary, the type
  \<open>UNKNOWN\<close> has no policy, and the two failures have the same class.
\<close>

theorem find_oil_by_engine_missing_primary_counterexample:
  "ENGINE_OIL_MAPPING OilFinder_dangling (EngineData.type (engine_of_type ''M999''))
     = Some \<lparr>primary = ''229.99'', alternatives = [''229.5'']\<rparr>
   \<and> OIL_SPECIFICATIONS OilFinder_dangling ''229.99'' = None
   \<and> ENGINE_OIL_MAPPING OilFinder_dangling (EngineData.type (engine_of_type ''UNKNOWN'')) = None
   \<and> find_oil_by_engine OilFinder_dangling (Some (engine_of_type ''M999''))
       = Inl (NoOilRecommendationError, ''Primary oil specification not found: 229.99'')
   \<and> find_oil_by_engine OilFinder_dangling (Some (engine_of_type ''UNKNOWN''))
       = Inl (NoOilRecommendationError, ''No oil recommendation for engine type: UNKNOWN'')"
  by (simp add: find_oil_by_engine_Some dangling_tables engine_of_type_def)

text \<open>
  C1, amended: when the engine type has a policy whose primary approval code is
  absent from the specification table, \<^verbatim>\<open>find_oil_by_engine\<close> fails with
  \<open>NoOilRecommendationError\<close> and the message ``Primary oil specification not found:''
  followed by the code (``Invalid engine data'' when the type is the empty string); it
  never returns a recommendation without a primary. This is the class that is also
  raised when the engine type has no policy; only the message tells the two apart.
\<close>

theorem find_oil_by_engine_missing_primary_error:
  "(ENGINE_OIL_MAPPING self (EngineData.type ed) = Some mapping \<and>
    OIL_SPECIFICATIONS self (OilMapping.primary mapping) = None \<longrightarrow>
      find_oil_by_engine self (Some ed) =
        Inl (NoOilRecommendationError,
             if EngineData.type ed = [] then ''Invalid engine data''
             else ''Primary oil specification not found: '' @ OilMapping.primary mapping))
   \<and> (ENGINE_OIL_MAPPING self (EngineData.type ed) = None \<longrightarrow>
      find_oil_by_engine self (Some ed) =
        Inl (NoOilRecommendationError,
             if EngineData.type ed = [] then ''Invalid engine data''
             else ''No oil recommendation for engine type: '' @ EngineData.type ed))"
  by (simp add: find_oil_by_engine_Some)

theorem find_oil_by_engine_missing_primary_error_witness:
  "find_oil_by_engine OilFinder_dangling (Some (engine_of_type ''M999''))
       = Inl (NoOilRecommendationError, ''Primary oil specification not found: 229.99'')
   \<and> find_oil_by_engine OilFinder_dangling (Some (engine_of_type ''UNKNOWN''))
       = Inl (NoOilRecommendationError, ''No oil recommendation for engine type: UNKNOWN'')"
  using find_oil_by_engine_missing_primary_error
          [of OilFinder_dangling "engine_of_type ''M999''"
              "\<lparr>primary = ''229.99'', alternatives = [''229.5'']\<rparr>"]
        find_oil_by_engine_missing_primary_error
          [of OilFinder_dangling "engine_of_type ''UNKNOWN''"]
  by (simp add: dangling_tables engine_of_type_def)

subsection \<open>C2: the engine lookup\<close>


subsection \<open>C3: the fields of a decoded VIN partition it\<close>

text \<open>
  C3: whenever \<^verbatim>\<open>decode_vin\<close> succeeds on a string, the seven positional fields of
  the record are the slices of the string at positions 0-3, 3-6, 6-8, 8-9, 9-10,
  10-11 and 11-17, and their concatenation in field order is the string itself.
\<close>

theorem decode_vin_round_trip:
  assumes "decode_vin (Str s) = Inr r"
  shows "vin r = s
   \<and> manufacturer r = slice s 0 3 \<and> model_series r = slice s 3 6
   \<and> engine_code r = slice s 6 8 \<and> model_details r = slice s 8 9
   \<and> model_year r = slice s 9 10 \<and> plant_code r = slice s 10 11
   \<and> serial_number r = slice s 11 17
   \<and> manufacturer r @ model_series r @ engine_code r @ model_details r
       @ model_year r @ plant_code r @ serial_number r = s"
proof -
  obtain b where v: "validate_vin (Str s) = Inr b"
    using assms by (cases "validate_vin (Str s)") (simp_all add: decode_vin_invalid)
  then have len: "length s = 17"
    by (simp add: validate_vin_Inr_iff)
  from assms have r: "r = \<lparr>vin = s, manufacturer = slice s 0 3, model_series = slice s 3 6,
         engine_code = slice s 6 8, model_details = slice s 8 9,
         model_year = slice s 9 10, plant_code = slice s 10 11,
         serial_number = slice s 11 17, engine = ENGINE_CODES (slice s 6 8)\<rparr>"
    by (simp add: decode_vin_valid [OF v])
  show ?thesis
    using slices_concat [OF len] by (simp add: r)
qed

theorem decode_vin_round_trip_witness:
  "decode_vin (Str ''WDD2050421A123456'') =
     Inr \<lparr>vin = ''WDD2050421A123456'', manufacturer = ''WDD'', model_series = ''205'',
          engine_code = ''04'', model_details = ''2'', model_year = ''1'',
          plant_code = ''A'', serial_number = ''123456'', engine = None\<rparr>
   \<and> ''WDD'' @ ''205'' @ ''04'' @ ''2'' @ ''1'' @ ''A'' @ ''123456'' = ''WDD2050421A123456''"
proof -
  have v: "validate_vin (Str ''WDD2050421A123456'') = Inr True"
    by (simp add: validate_vin_def slice_def MB_MANUFACTURER_CODES_def)
  have d: "decode_vin (Str ''WDD2050421A123456'') =
     Inr \<lparr>vin = ''WDD2050421A123456'', manufacturer = ''WDD'', model_series = ''205'',
          engine_code = ''04'', model_details = ''2'', model_year = ''1'',
          plant_code = ''A'', serial_number = ''123456'', engine = None\<rparr>"
    by (simp add: decode_vin_valid [OF v] slice_def ENGINE_CODES_def)
  show ?thesis
    using decode_vin_round_trip [OF d] d by simp
qed

subsection \<open>C4: the order of the validation checks\<close>

text \<open>
  C4: for every input, \<^verbatim>\<open>validate_vin\<close> raises the error of the first failing check,
  in the order: not a string or empty, length other than 17, one of the characters I,
  O, Q present, manufacturer prefix not recognised. The first three raise
  \<open>InvalidVINError\<close>; only a string of 17 characters without I, O and Q can raise
  \<open>UnsupportedVehicleError\<close>, so a 17-character string that contains a forbidden
  character raises \<open>InvalidVINError\<close> whatever its prefix is. An input that passes all
  four checks gives \<^verbatim>\<open>True\<close>, and \<^verbatim>\<open>decode_vin\<close> raises whatever \<^verbatim>\<open>validate_vin\<close>
  raises.
\<close>

theorem validate_vin_error_order:
  "(v = NotStr \<or> v = Str [] \<longrightarrow>
      validate_vin v = Inl (InvalidVINError, ''VIN must be a non-empty string''))
   \<and> (v = Str s \<and> s \<noteq> [] \<and> length s \<noteq> 17 \<longrightarrow>
      validate_vin v = Inl (InvalidVINError, ''VIN must be 17 characters long''))
   \<and> (v = Str s \<and> length s = 17
        \<and> (\<exists>c\<in>set s. c = CHR ''I'' \<or> c = CHR ''O'' \<or> c = CHR ''Q'') \<longrightarrow>
      validate_vin v = Inl (InvalidVINError,
        ''VIN contains invalid characters: I, O, or Q are not allowed''))
   \<and> (v = Str s \<and> length s = 17
        \<and> \<not> (\<exists>c\<in>set s. c = CHR ''I'' \<or> c = CHR ''O'' \<or> c = CHR ''Q'')
        \<and> take 3 s \<notin> MB_MANUFACTURER_CODES \<longrightarrow>
      validate_vin v = Inl (UnsupportedVehicleError,
        ''Not a recognized Mercedes-Benz VIN: '' @ take 3 s))
   \<and> (v = Str s \<and> length s = 17
        \<and> \<not> (\<exists>c\<in>set s. c = CHR ''I'' \<or> c = CHR ''O'' \<or> c = CHR ''Q'')
        \<and> take 3 s \<in> MB_MANUFACTURER_CODES \<longrightarrow>
      validate_vin v = Inr True)
   \<and> (\<forall>e. validate_vin v = Inl e \<longrightarrow> decode_vin v = Inl e)
   \<and> (\<forall>m. validate_vin v = Inl (UnsupportedVehicleError, m) \<longrightarrow>
        (\<exists>t. v = Str t \<and> length t = 17
           \<and> \<not> (\<exists>c\<in>set t. c = CHR ''I'' \<or> c = CHR ''O'' \<or> c = CHR ''Q'')))"
proof (intro conjI)
  show "\<forall>m. validate_vin v = Inl (UnsupportedVehicleError, m) \<longrightarrow>
        (\<exists>t. v = Str t \<and> length t = 17
           \<and> \<not> (\<exists>c\<in>set t. c = CHR ''I'' \<or> c = CHR ''O'' \<or> c = CHR ''Q''))"
    by (cases v) (auto simp: validate_vin_def Let_def list_ex_iff split: if_splits)
qed (auto simp: validate_vin_def slice_def list_ex_iff decode_vin_invalid)

theorem validate_vin_error_order_witness:
  "validate_vin NotStr = Inl (InvalidVINError, ''VIN must be a non-empty string'')
   \<and> validate_vin (Str []) = Inl (InvalidVINError, ''VIN must be a non-empty string'')
   \<and> validate_vin (Str ''1HQ'') = Inl (InvalidVINError, ''VIN must be 17 characters long'')
   \<and> validate_vin (Str ''1HGCM8263QA123456'') = Inl (InvalidVINError,
        ''VIN contains invalid characters: I, O, or Q are not allowed'')
   \<and> decode_vin (Str ''1HGCM8263QA123456'') = Inl (InvalidVINError,
        ''VIN contains invalid characters: I, O, or Q are not allowed'')
   \<and> validate_vin (Str ''1HGCM82633A123456'') = Inl (UnsupportedVehicleError,
        ''Not a recognized Mercedes-Benz VIN: 1HG'')
   \<and> decode_vin (Str ''1HGCM82633A123456'') = Inl (UnsupportedVehicleError,
        ''Not a recognized Mercedes-Benz VIN: 1HG'')
   \<and> validate_vin (Str ''WDD2050421A123456'') = Inr True"
  using validate_vin_error_order [of NotStr] validate_vin_error_order [of "Str []"]
    validate_vin_error_order [of "Str ''1HQ''" "''1HQ''"]
    validate_vin_error_order [of "Str ''1HGCM8263QA123456''" "''1HGCM8263QA123456''"]
    validate_vin_error_order [of "Str ''1HGCM82633A123456''" "''1HGCM82633A123456''"]
    validate_vin_error_order [of "Str ''WDD2050421A123456''" "''WDD2050421A123456''"]
  by (simp add: MB_MANUFACTURER_CODES_def)

subsection \<open>C5: decoding tolerates an unknown engine code\<close>

text \<open>
  C5: for every VIN that passes \<^verbatim>\<open>validate_vin\<close> and whose engine-code substring
  (positions 6-8) has no entry in the engine table, \<^verbatim>\<open>decode_vin\<close> raises nothing: it
  returns a record whose \<open>engine\<close> field is \<^verbatim>\<open>None\<close>.
\<close>

theorem decode_vin_missing_engine:
  assumes "validate_vin (Str s) = Inr True" and "ENGINE_CODES (slice s 6 8) = None"
  shows "\<exists>r. decode_vin (Str s) = Inr r \<and> engine_code r = slice s 6 8 \<and> engine r = None"
  using assms by (simp add: decode_vin_valid)

theorem decode_vin_missing_engine_witness:
  "validate_vin (Str ''WDB9634031L924883'') = Inr True
   \<and> ENGINE_CODES (slice ''WDB9634031L924883'' 6 8) = None
   \<and> (\<exists>r. decode_vin (Str ''WDB9634031L924883'') = Inr r
          \<and> engine_code r = ''40'' \<and> engine r = None)"
proof -
  have v: "validate_vin (Str ''WDB9634031L924883'') = Inr True"
    by (simp add: validate_vin_def slice_def MB_MANUFACTURER_CODES_def)
  have e: "ENGINE_CODES (slice ''WDB9634031L924883'' 6 8) = None"
    by (simp add: slice_def ENGINE_CODES_def)
  have s: "slice ''WDB9634031L924883'' 6 8 = ''40''"
    by (simp add: slice_def)
  show ?thesis
    using decode_vin_missing_engine [OF v e] v e by (simp add: s)
qed

subsection \<open>C6: the alternatives are the resolvable codes, in order\<close>

text \<open>
  C6: when the engine type has a policy and the policy's primary approval code
  resolves, \<^verbatim>\<open>find_oil_by_engine\<close> succeeds with that primary, and its alternatives are
  the specifications of exactly those alternative codes of the policy that the
  specification table resolves, in the order the policy lists them; a code that does
  not resolve is skipped and causes no failure.
\<close>

theorem find_oil_by_engine_alternatives:
  assumes "EngineData.type ed \<noteq> []"
    and "ENGINE_OIL_MAPPING self (EngineData.type ed) = Some mapping"
    and "OIL_SPECIFICATIONS self (OilMapping.primary mapping) = Some primary_spec"
  shows "\<exists>r. find_oil_by_engine self (Some ed) = Inr r
     \<and> OilRecommendation.primary r = primary_spec
     \<and> OilRecommendation.alternatives r =
         map (the \<circ> OIL_SPECIFICATIONS self)
           (filter (\<lambda>c. OIL_SPECIFICATIONS self c \<noteq> None) (OilMapping.alternatives mapping))"
  using assms by (simp add: find_oil_by_engine_Some)

theorem find_oil_by_engine_alternatives_witness:
  "\<exists>r. find_oil_by_engine OilFinder_dangling (Some (engine_of_type ''M274'')) = Inr r
     \<and> map mb_approval (OilRecommendation.alternatives r) = [''229.3'', ''229.1'']"
proof -
  have t: "EngineData.type (engine_of_type ''M274'') = ''M274''"
    by (simp add: engine_of_type_def)
  have m: "ENGINE_OIL_MAPPING OilFinder_dangling (EngineData.type (engine_of_type ''M274''))
     = Some \<lparr>primary = ''229.5'',
             alternatives = [''229.52'', ''229.3'', ''229.71'', ''229.1'']\<rparr>"
    by (simp add: t dangling_M274)
  have p: "OIL_SPECIFICATIONS OilFinder_dangling
      (OilMapping.primary \<lparr>primary = ''229.5'',
         alternatives = [''229.52'', ''229.3'', ''229.71'', ''229.1'']\<rparr>)
     = Some \<lparr>mb_approval = ''229.5'', viscosity = ''5W-30'', type = ''Synthetic'',
           description = ''Advanced specification for extended drain intervals''\<rparr>"
    by (simp add: dangling_specs init_specs)
  have n: "EngineData.type (engine_of_type ''M274'') \<noteq> []"
    by (simp add: t)
  show ?thesis
    using find_oil_by_engine_alternatives [OF n m p] by (auto simp: dangling_specs init_specs)
qed

subsection \<open>C7: no duplicate and no primary among the alternatives\<close>

text \<open>
  C7: every recommendation that \<^verbatim>\<open>find_oil_by_engine\<close> returns, with the tables of the
  class, has an alternatives list without duplicates that does not contain the primary
  specification.
\<close>

theorem find_oil_by_engine_alternatives_distinct:
  assumes "find_oil_by_engine OilFinder_init engine_data = Inr r"
  shows "distinct (OilRecommendation.alternatives r)
     \<and> OilRecommendation.primary r \<notin> set (OilRecommendation.alternatives r)"
proof (cases engine_data)
  case None
  with assms show ?thesis by (simp add: find_oil_by_engine_def)
next
  case (Some ed)
  with assms show ?thesis
    by (auto simp: find_oil_by_engine_Some init_mapping init_specs split: if_splits)
qed

theorem find_oil_by_engine_alternatives_distinct_witness:
  "\<exists>r. find_oil_by_engine OilFinder_init (ENGINE_CODES ''42'') = Inr r
     \<and> distinct (OilRecommendation.alternatives r)
     \<and> OilRecommendation.primary r \<notin> set (OilRecommendation.alternatives r)"
proof -
  have "\<exists>r. find_oil_by_engine OilFinder_init (ENGINE_CODES ''42'') = Inr r"
    by (simp add: ENGINE_CODES_def find_oil_by_engine_Some init_mapping init_specs)
  then obtain r where r: "find_oil_by_engine OilFinder_init (ENGINE_CODES ''42'') = Inr r" ..
  from find_oil_by_engine_alternatives_distinct [OF r] r show ?thesis by simp
qed

subsection \<open>C8: the recommendation for OM651\<close>

text \<open>
  C8: for every engine record whose type is \<open>OM651\<close>, \<^verbatim>\<open>find_oil_by_engine\<close> succeeds;
  the approval code of the primary is \<open>229.51\<close> and the approval codes of the
  alternatives are \<open>229.5\<close> and then \<open>229.3\<close>.
\<close>

theorem find_oil_by_engine_OM651:
  assumes "EngineData.type ed = ''OM651''"
  shows "\<exists>r. find_oil_by_engine OilFinder_init (Some ed) = Inr r
     \<and> mb_approval (OilRecommendation.primary r) = ''229.51''
     \<and> map mb_approval (OilRecommendation.alternatives r) = [''229.5'', ''229.3'']"
  using assms by (simp add: find_oil_by_engine_Some init_mapping init_specs)

theorem find_oil_by_engine_OM651_witness:
  "map_option EngineData.type (ENGINE_CODES ''42'') = Some ''OM651''
   \<and> (\<exists>r. find_oil_by_engine OilFinder_init (ENGINE_CODES ''42'') = Inr r
     \<and> mb_approval (OilRecommendation.primary r) = ''229.51''
     \<and> map mb_approval (OilRecommendation.alternatives r) = [''229.5'', ''229.3''])"
proof -
  obtain ed where e: "ENGINE_CODES ''42'' = Some ed" and t: "EngineData.type ed = ''OM651''"
    by (simp add: ENGINE_CODES_def)
  from find_oil_by_engine_OM651 [OF t] e t show ?thesis by simp
qed

subsection \<open>C9: only I, O and Q are rejected\<close>

text \<open>
  C9: the character check of \<^verbatim>\<open>validate_vin\<close> looks for I, O and Q and nothing else.
  Every string of 17 characters whose first three characters are one of the
  manufacturer codes and which contains none of I, O, Q passes \<^verbatim>\<open>validate_vin\<close> and is
  decoded, whatever its other characters are: a dollar sign, lower-case letters and
  a blank included.
\<close>

theorem validate_vin_rejects_only_IOQ:
  assumes "length s = 17"
    and "take 3 s \<in> MB_MANUFACTURER_CODES"
    and "\<forall>c\<in>set s. c \<noteq> CHR ''I'' \<and> c \<noteq> CHR ''O'' \<and> c \<noteq> CHR ''Q''"
  shows "validate_vin (Str s) = Inr True \<and> (\<exists>r. decode_vin (Str s) = Inr r \<and> vin r = s)"
proof -
  have "validate_vin (Str s) = Inr True"
    using assms by (auto simp: validate_vin_Inr_iff slice_def list_ex_iff)
  then show ?thesis by (simp add: decode_vin_valid)
qed

theorem validate_vin_rejects_only_IOQ_witness:
  "validate_vin (Str ''WDD20$ ab1A123456'') = Inr True
   \<and> (\<exists>r. decode_vin (Str ''WDD20$ ab1A123456'') = Inr r \<and> vin r = ''WDD20$ ab1A123456'')"
  using validate_vin_rejects_only_IOQ [of "''WDD20$ ab1A123456''"]
  by (simp add: MB_MANUFACTURER_CODES_def)

subsection \<open>C10: the recommendation depends on the engine type alone\<close>

text \<open>
  C10: two engine records with the same non-empty type get the same result from
  \<^verbatim>\<open>find_oil_by_engine\<close>, the same recommendation or the same error, however their
  other fields differ.
\<close>

theorem find_oil_by_engine_type_only:
  assumes "EngineData.type ed1 = EngineData.type ed2" and "EngineData.type ed1 \<noteq> []"
  shows "find_oil_by_engine self (Some ed1) = find_oil_by_engine self (Some ed2)"
  using assms by (simp add: find_oil_by_engine_Some split: option.splits)

theorem find_oil_by_engine_type_only_witness:
  "EngineData.type (engine_of_type ''OM651'') \<noteq> []
   \<and> map_option EngineData.type (ENGINE_CODES ''42'')
       = Some (EngineData.type (engine_of_type ''OM651''))
   \<and> ENGINE_CODES ''42'' \<noteq> Some (engine_of_type ''OM651'')
   \<and> find_oil_by_engine OilFinder_init (ENGINE_CODES ''42'')
       = find_oil_by_engine OilFinder_init (Some (engine_of_type ''OM651''))"
proof -
  obtain ed where e: "ENGINE_CODES ''42'' = Some ed"
    and t: "EngineData.type ed = EngineData.type (engine_of_type ''OM651'')"
    and d: "ed \<noteq> engine_of_type ''OM651''"
    by (simp add: ENGINE_CODES_def engine_of_type_def)
  have n: "EngineData.type ed \<noteq> []"
    by (simp add: t engine_of_type_def)
  from find_oil_by_engine_type_only [OF t n, of OilFinder_init] e t d n
  show ?thesis by simp
qed

end
